theory Spec2Isabelle
  imports Main "HOL-Library.Word"
begin

section \<open>The file-backed ktxStream of lib/ktxfilestream.c\<close>

text \<open>
  The six stream operations of \<^verbatim>\<open>lib/ktxfilestream.c\<close> and its constructor are
  embedded as functions on an explicit world: the table of open stdio streams, each with
  its file and its buffer, together with a log of the stdio calls issued so far. Every operation returns an
  \<open>option\<close>: \<open>None\<close> stands for a call that does not return a result at all (the
  \<^verbatim>\<open>assert\<close> on the stream's type tag fails, or stdio is handed a pointer that is not
  an open stream or a block that is too small); \<open>Some\<close> carries the returned
  \<^verbatim>\<open>KTX_error_code\<close>, the world after the call and the contents of the block or
  variable an output pointer refers to.

  Machine types are those of an LP64 platform: \<^verbatim>\<open>GLsizei\<close> is a signed 32-bit
  integer, \<^verbatim>\<open>off_t\<close> a signed and \<^verbatim>\<open>size_t\<close> an unsigned 64-bit integer.
  Signed words are read with \<open>sint\<close>, unsigned ones with \<open>unat\<close>.
\<close>

subsection \<open>Machine types and result codes\<close>

type_synonym byte = "8 word"
type_synonym GLsizei = "32 word"
type_synonym off_t = "64 word"
type_synonym size_t = "64 word"

text \<open>
  Modelled from the spec: \<^verbatim>\<open>KTX_error_code\<close> is declared in \<^verbatim>\<open>ktx.h\<close>, outside
  \<^verbatim>\<open>lib/ktxfilestream.c\<close>. The members are the five that this file returns. In the
  spec's taxonomy \<^verbatim>\<open>KTX_INVALID_VALUE\<close> is InvalidArgument,
  \<^verbatim>\<open>KTX_UNEXPECTED_END_OF_FILE\<close> is UnexpectedEndOfData, \<^verbatim>\<open>KTX_FILE_WRITE_ERROR\<close>
  is WriteError and \<^verbatim>\<open>KTX_INVALID_OPERATION\<close> is InvalidOperation.
\<close>

datatype KTX_error_code =
    KTX_SUCCESS
  | KTX_FILE_WRITE_ERROR
  | KTX_INVALID_OPERATION
  | KTX_INVALID_VALUE
  | KTX_UNEXPECTED_END_OF_FILE

text \<open>
  Modelled from the spec: the stream's type tag is declared in \<^verbatim>\<open>ktxint.h\<close>. Only
  \<^verbatim>\<open>eStreamTypeFile\<close> occurs in this file; the second member stands for the in-memory
  backend that the spec names as the sibling realization.
\<close>

datatype streamType = eStreamTypeFile | eStreamTypeMemory

text \<open>
  The value conversion of a (signed) \<^verbatim>\<open>GLsizei\<close> argument to the \<^verbatim>\<open>size_t\<close>
  parameter of \<^verbatim>\<open>fread\<close> and \<^verbatim>\<open>fwrite\<close>: reduction modulo \<open>2 ^ 64\<close>.
\<close>

definition size_t_of_GLsizei :: "GLsizei \<Rightarrow> nat" where
  "size_t_of_GLsizei n = nat (sint n mod 2 ^ 64)"

subsection \<open>The platform: buffered stdio streams on regular files\<close>

text \<open>
  An open stdio stream on a regular file, opened for update in binary mode and fully
  buffered, which is what a stream is unless the program changes it: the source never
  calls \<^verbatim>\<open>setvbuf\<close> or \<^verbatim>\<open>fflush\<close>. The state is
  \<^item> the bytes the file holds in the file system, which is what \<^verbatim>\<open>fstat\<close> measures;
  \<^item> the offset of the descriptor, where output that is still buffered will go;
  \<^item> the output that \<^verbatim>\<open>fwrite\<close> has taken into the stream's buffer and that has
    not been written to the file yet, and the capacity of that buffer;
  \<^item> three facts of the environment that decide whether the platform calls fail: the file
    size limit in force (writing to the file stops there, as with a full device or
    \<^verbatim>\<open>RLIMIT_FSIZE\<close>), the largest offset the file system lets a descriptor be
    positioned at, and whether \<^verbatim>\<open>fstat\<close> on the descriptor fails.
\<close>

record FILE =
  contents :: "byte list"
  fd_offset :: nat
  wbuf :: "byte list"
  bufsiz :: nat
  fsize_limit :: nat
  seek_limit :: nat
  fstat_err :: bool

text \<open>
  The file position indicator, as \<^verbatim>\<open>ftello\<close> reports it: buffered output counts as
  written.
\<close>

definition fpos :: "FILE \<Rightarrow> nat" where
  "fpos f = fd_offset f + length (wbuf f)"

type_synonym FILE_ptr = nat

datatype libc_call =
    Call_fread | Call_fwrite | Call_fseek | Call_fseeko | Call_ftello | Call_fstat

record world =
  files :: "FILE_ptr \<Rightarrow> FILE option"
  io_log :: "libc_call list"

datatype whence = SEEK_SET | SEEK_CUR | SEEK_END

definition logged :: "libc_call \<Rightarrow> world \<Rightarrow> world" where
  "logged c w = w\<lparr>io_log := io_log w @ [c]\<rparr>"

definition store :: "FILE_ptr \<Rightarrow> FILE \<Rightarrow> world \<Rightarrow> world" where
  "store p f w = w\<lparr>files := (files w)(p \<mapsto> f)\<rparr>"

text \<open>
  \<open>put_bytes p bs d\<close>: the file contents \<open>d\<close> after the bytes \<open>bs\<close> have been
  written at offset \<open>p\<close>. A gap between the old end of the file and \<open>p\<close> reads as
  zero bytes; writing nothing changes nothing.
\<close>

definition put_bytes :: "nat \<Rightarrow> byte list \<Rightarrow> byte list \<Rightarrow> byte list" where
  "put_bytes p bs d =
     (if bs = [] then d
      else take p (d @ replicate (p - length d) 0) @ bs @ drop (p + length bs) d)"

text \<open>
  Writing the buffered output to the file, as the library does when the buffer is full
  and before it repositions or reads: the bytes go to the file at the descriptor's offset
  as far as the file size limit allows. What could not be written stays in the buffer;
  the flush has failed exactly when the buffer is not empty afterwards.
\<close>

definition flush :: "FILE \<Rightarrow> FILE" where
  "flush f =
     (let k = min (length (wbuf f)) (fsize_limit f - fd_offset f) in
      f\<lparr>contents := put_bytes (fd_offset f) (take k (wbuf f)) (contents f),
        fd_offset := fd_offset f + k,
        wbuf := drop k (wbuf f)\<rparr>)"

text \<open>The bytes the file holds once the buffered output has been written to it.\<close>

definition view :: "FILE \<Rightarrow> byte list" where
  "view f = put_bytes (fd_offset f) (wbuf f) (contents f)"

text \<open>
  \<^verbatim>\<open>fread(ptr, size, nmemb, stream)\<close>. If \<open>size\<close> or \<open>nmemb\<close> is zero, it
  returns zero and changes neither the block nor the stream. Otherwise buffered output is
  written out first (ISO C leaves input directly after output undefined; the common
  libraries flush), and if that fails nothing is read. Then it transfers as many of the
  \<open>size * nmemb\<close> bytes as the file holds from the position on (none when the position
  is at or beyond the end), advances the position by the bytes transferred and returns
  the number of complete items. The block must hold \<open>size * nmemb\<close> bytes.
\<close>

definition fread ::
  "world \<Rightarrow> byte list \<Rightarrow> nat \<Rightarrow> nat \<Rightarrow> FILE_ptr \<Rightarrow> (nat \<times> byte list \<times> world) option"
where
  "fread w ptr sz nmemb stream =
     (case files w stream of
        None \<Rightarrow> None
      | Some f \<Rightarrow>
          if sz = 0 \<or> nmemb = 0 then Some (0, ptr, logged Call_fread w)
          else if length ptr < sz * nmemb then None
          else
            let g = flush f in
            if wbuf g \<noteq> [] then Some (0, ptr, logged Call_fread (store stream g w))
            else
              let k = min (sz * nmemb) (length (contents g) - fd_offset g) in
              Some (k div sz,
                    take k (drop (fd_offset g) (contents g)) @ drop k ptr,
                    logged Call_fread
                      (store stream (g\<lparr>fd_offset := fd_offset g + k\<rparr>) w)))"

text \<open>
  \<^verbatim>\<open>fwrite(ptr, size, nmemb, stream)\<close>. If \<open>size\<close> or \<open>nmemb\<close> is zero, it
  returns zero and the stream is unchanged. Otherwise the bytes of the block are appended
  to the buffered output. As long as the buffer holds them, that is all: nothing reaches
  the file, no failure of the device can show, and the return value is \<open>nmemb\<close>. When
  the buffer's capacity is exceeded, the output is written to the file in whole
  buffers and the remainder stays buffered, as the GNU C library does; if the file does
  not take what is written out, the call returns the number of complete items it did
  place and the rest of the output is lost.
\<close>

definition fwrite ::
  "world \<Rightarrow> byte list \<Rightarrow> nat \<Rightarrow> nat \<Rightarrow> FILE_ptr \<Rightarrow> (nat \<times> world) option"
where
  "fwrite w ptr sz nmemb stream =
     (case files w stream of
        None \<Rightarrow> None
      | Some f \<Rightarrow>
          if sz = 0 \<or> nmemb = 0 then Some (0, logged Call_fwrite w)
          else if length ptr < sz * nmemb then None
          else
            let out = wbuf f @ take (sz * nmemb) ptr in
            if length out \<le> bufsiz f
            then Some (nmemb, logged Call_fwrite (store stream (f\<lparr>wbuf := out\<rparr>) w))
            else
              let keep = (if bufsiz f = 0 then 0 else length out mod bufsiz f);
                  g = flush (f\<lparr>wbuf := take (length out - keep) out\<rparr>)
              in
              if wbuf g = []
              then Some (nmemb,
                     logged Call_fwrite
                       (store stream (g\<lparr>wbuf := drop (length out - keep) out\<rparr>) w))
              else Some ((sz * nmemb - (length (wbuf g) + keep)) div sz,
                     logged Call_fwrite (store stream (g\<lparr>wbuf := []\<rparr>) w)))"

text \<open>
  The target of a seek. Before it repositions, the library writes the buffered output to
  the file; if that fails, so does the call (\<open>-1\<close>). The call also fails when the
  target is negative, not representable in a signed 64-bit offset or beyond the largest
  offset of the file system. A target beyond the end of the file is accepted, as POSIX
  requires of \<^verbatim>\<open>fseek\<close>, and the length of the file is not changed by it.
\<close>

definition seek_target :: "FILE \<Rightarrow> int \<Rightarrow> whence \<Rightarrow> int" where
  "seek_target f offset wh =
     (case wh of
        SEEK_SET \<Rightarrow> offset
      | SEEK_CUR \<Rightarrow> int (fpos f) + offset
      | SEEK_END \<Rightarrow> int (length (contents f)) + offset)"

definition seek_stream ::
  "libc_call \<Rightarrow> world \<Rightarrow> FILE_ptr \<Rightarrow> int \<Rightarrow> whence \<Rightarrow> (int \<times> world) option"
where
  "seek_stream c w stream offset wh =
     (case files w stream of
        None \<Rightarrow> None
      | Some f \<Rightarrow>
          let g = flush f in
          if wbuf g \<noteq> [] then Some (- 1, logged c (store stream g w))
          else
            let t = seek_target g offset wh in
            if t < 0 \<or> 2 ^ 63 \<le> t \<or> int (seek_limit g) < t
            then Some (- 1, logged c (store stream g w))
            else Some (0, logged c (store stream (g\<lparr>fd_offset := nat t\<rparr>) w)))"

text \<open>\<^verbatim>\<open>fseek\<close> takes a \<^verbatim>\<open>long\<close>, \<^verbatim>\<open>fseeko\<close> an \<^verbatim>\<open>off_t\<close>: both 64 bits here.\<close>

definition fseek :: "world \<Rightarrow> FILE_ptr \<Rightarrow> int \<Rightarrow> whence \<Rightarrow> (int \<times> world) option" where
  "fseek = seek_stream Call_fseek"

definition fseeko :: "world \<Rightarrow> FILE_ptr \<Rightarrow> int \<Rightarrow> whence \<Rightarrow> (int \<times> world) option" where
  "fseeko = seek_stream Call_fseeko"

text \<open>
  \<^verbatim>\<open>ftello(stream)\<close>: the position, buffered output included, or \<open>-1\<close> when an
  \<^verbatim>\<open>off_t\<close> cannot hold it. Nothing is written out.
\<close>

definition ftello :: "world \<Rightarrow> FILE_ptr \<Rightarrow> (off_t \<times> world) option" where
  "ftello w stream =
     (case files w stream of
        None \<Rightarrow> None
      | Some f \<Rightarrow>
          Some (if fpos f < 2 ^ 63 then word_of_nat (fpos f) else - 1,
                logged Call_ftello w))"

text \<open>
  \<^verbatim>\<open>fstat(fileno(stream), &statbuf)\<close>. The inner \<open>None\<close> is the return value
  \<open>-1\<close>, with \<^verbatim>\<open>statbuf\<close> not filled in; \<open>Some n\<close> is the return value \<open>0\<close> with
  \<^verbatim>\<open>statbuf.st_size = n\<close>. The query goes to the descriptor, past the stream: it
  measures the bytes in the file system, not the buffered output, and touches neither the
  file nor the position.
\<close>

definition fstat :: "world \<Rightarrow> FILE_ptr \<Rightarrow> (off_t option \<times> world) option" where
  "fstat w stream =
     (case files w stream of
        None \<Rightarrow> None
      | Some f \<Rightarrow>
          Some (if fstat_err f then None else Some (word_of_nat (length (contents f))),
                logged Call_fstat w))"

subsection \<open>The stream structure\<close>

text \<open>
  Modelled from the spec: \<^verbatim>\<open>ktxStream\<close> is declared in \<^verbatim>\<open>ktxint.h\<close>. The fields
  are those that this file reads or assigns: the type tag, the \<^verbatim>\<open>data.file\<close> member
  and the six function slots. A slot holds the name of one of the six functions below, or
  something else.
\<close>

datatype stream_fn =
    fn_other
  | fn_ktxFileStream_read
  | fn_ktxFileStream_skip
  | fn_ktxFileStream_write
  | fn_ktxFileStream_getpos
  | fn_ktxFileStream_setpos
  | fn_ktxFileStream_getsize

record ktxStream =
  stream_type :: streamType
  data_file :: FILE_ptr
  read_fn :: stream_fn
  skip_fn :: stream_fn
  write_fn :: stream_fn
  getpos_fn :: stream_fn
  setpos_fn :: stream_fn
  getsize_fn :: stream_fn

subsection \<open>The operations\<close>

text \<open>
  A pointer argument is an \<open>option\<close>: \<open>None\<close> is \<^verbatim>\<open>NULL\<close>, \<open>Some x\<close> points to a
  block or variable that currently holds \<open>x\<close>. The last component of a result is what
  that block or variable holds afterwards.
\<close>

definition ktxFileStream_read ::
  "world \<Rightarrow> ktxStream option \<Rightarrow> byte list option \<Rightarrow> GLsizei \<Rightarrow>
   (KTX_error_code \<times> world \<times> byte list option) option"
where
  "ktxFileStream_read w str dst sz =
     (case str of
        None \<Rightarrow> Some (KTX_INVALID_VALUE, w, dst)
      | Some s \<Rightarrow>
          (case dst of
             None \<Rightarrow> Some (KTX_INVALID_VALUE, w, dst)
           | Some d \<Rightarrow>
               if stream_type s \<noteq> eStreamTypeFile then None
               else
                 (case fread w d (size_t_of_GLsizei sz) 1 (data_file s) of
                    None \<Rightarrow> None
                  | Some (n, d', w') \<Rightarrow>
                      if n \<noteq> 1 then Some (KTX_UNEXPECTED_END_OF_FILE, w', Some d')
                      else Some (KTX_SUCCESS, w', Some d'))))"

definition ktxFileStream_skip ::
  "world \<Rightarrow> ktxStream option \<Rightarrow> GLsizei \<Rightarrow> (KTX_error_code \<times> world) option"
where
  "ktxFileStream_skip w str count =
     (case str of
        None \<Rightarrow> Some (KTX_INVALID_VALUE, w)
      | Some s \<Rightarrow>
          if sint count < 0 then Some (KTX_INVALID_VALUE, w)
          else if stream_type s \<noteq> eStreamTypeFile then None
          else
            (case fseek w (data_file s) (sint count) SEEK_CUR of
               None \<Rightarrow> None
             | Some (r, w') \<Rightarrow>
                 if r \<noteq> 0 then Some (KTX_UNEXPECTED_END_OF_FILE, w')
                 else Some (KTX_SUCCESS, w')))"

definition ktxFileStream_write ::
  "world \<Rightarrow> ktxStream option \<Rightarrow> byte list option \<Rightarrow> GLsizei \<Rightarrow> GLsizei \<Rightarrow>
   (KTX_error_code \<times> world) option"
where
  "ktxFileStream_write w str src sz count =
     (case str of
        None \<Rightarrow> Some (KTX_INVALID_VALUE, w)
      | Some s \<Rightarrow>
          (case src of
             None \<Rightarrow> Some (KTX_INVALID_VALUE, w)
           | Some b \<Rightarrow>
               if stream_type s \<noteq> eStreamTypeFile then None
               else
                 (case fwrite w b (size_t_of_GLsizei sz) (size_t_of_GLsizei count)
                         (data_file s) of
                    None \<Rightarrow> None
                  | Some (n, w') \<Rightarrow>
                      if n \<noteq> size_t_of_GLsizei count then Some (KTX_FILE_WRITE_ERROR, w')
                      else Some (KTX_SUCCESS, w'))))"

definition ktxFileStream_getpos ::
  "world \<Rightarrow> ktxStream option \<Rightarrow> off_t option \<Rightarrow>
   (KTX_error_code \<times> world \<times> off_t option) option"
where
  "ktxFileStream_getpos w str pos =
     (case str of
        None \<Rightarrow> Some (KTX_INVALID_VALUE, w, pos)
      | Some s \<Rightarrow>
          (case pos of
             None \<Rightarrow> Some (KTX_INVALID_VALUE, w, pos)
           | Some _ \<Rightarrow>
               if stream_type s \<noteq> eStreamTypeFile then None
               else
                 (case ftello w (data_file s) of
                    None \<Rightarrow> None
                  | Some (p, w') \<Rightarrow> Some (KTX_SUCCESS, w', Some p))))"

definition ktxFileStream_getsize ::
  "world \<Rightarrow> ktxStream option \<Rightarrow> size_t option \<Rightarrow>
   (KTX_error_code \<times> world \<times> size_t option) option"
where
  "ktxFileStream_getsize w str sz =
     (case str of
        None \<Rightarrow> Some (KTX_INVALID_VALUE, w, sz)
      | Some s \<Rightarrow>
          (case sz of
             None \<Rightarrow> Some (KTX_INVALID_VALUE, w, sz)
           | Some _ \<Rightarrow>
               if stream_type s \<noteq> eStreamTypeFile then None
               else
                 (case fstat w (data_file s) of
                    None \<Rightarrow> None
                  | Some (None, w') \<Rightarrow> Some (KTX_FILE_WRITE_ERROR, w', sz)
                  | Some (Some st_size, w') \<Rightarrow> Some (KTX_SUCCESS, w', Some st_size))))"

text \<open>
  The call \<^verbatim>\<open>str->getsize(str, &fileSize)\<close> goes through the stream's slot. Only the
  function of this file is known; any other slot content leaves the model.
\<close>

definition call_getsize ::
  "stream_fn \<Rightarrow> world \<Rightarrow> ktxStream option \<Rightarrow> size_t option \<Rightarrow>
   (KTX_error_code \<times> world \<times> size_t option) option"
where
  "call_getsize fn w str sz =
     (if fn = fn_ktxFileStream_getsize then ktxFileStream_getsize w str sz else None)"

text \<open>
  \<^verbatim>\<open>fileSize\<close> is a local without initialiser: the extra argument \<open>fileSize_init\<close> is the
  value it happens to hold on entry. The result of the size query is discarded, so after
  a failed query the comparison reads \<open>fileSize_init\<close>. The comparison \<^verbatim>\<open>pos > fileSize\<close>
  is between an \<^verbatim>\<open>off_t\<close> and a \<^verbatim>\<open>size_t\<close> and is therefore made on unsigned 64-bit
  values: the order of the words themselves.
\<close>

definition ktxFileStream_setpos ::
  "world \<Rightarrow> ktxStream option \<Rightarrow> off_t \<Rightarrow> size_t \<Rightarrow> (KTX_error_code \<times> world) option"
where
  "ktxFileStream_setpos w str pos fileSize_init =
     (case str of
        None \<Rightarrow> Some (KTX_INVALID_VALUE, w)
      | Some s \<Rightarrow>
          if stream_type s \<noteq> eStreamTypeFile then None
          else
            (case call_getsize (getsize_fn s) w str (Some fileSize_init) of
               None \<Rightarrow> None
             | Some (_, w1, None) \<Rightarrow> None
             | Some (_, w1, Some fileSize) \<Rightarrow>
                 if fileSize < pos then Some (KTX_INVALID_OPERATION, w1)
                 else
                   (case fseeko w1 (data_file s) (sint pos) SEEK_SET of
                      None \<Rightarrow> None
                    | Some (r, w2) \<Rightarrow>
                        if r < 0 then Some (KTX_INVALID_OPERATION, w2)
                        else Some (KTX_SUCCESS, w2))))"

definition ktxFileStream_construct ::
  "ktxStream option \<Rightarrow> FILE_ptr option \<Rightarrow> KTX_error_code \<times> ktxStream option"
where
  "ktxFileStream_construct str file =
     (case str of
        None \<Rightarrow> (KTX_INVALID_VALUE, str)
      | Some s \<Rightarrow>
          (case file of
             None \<Rightarrow> (KTX_INVALID_VALUE, str)
           | Some fp \<Rightarrow>
               (KTX_SUCCESS,
                Some (s\<lparr>data_file := fp,
                        stream_type := eStreamTypeFile,
                        read_fn := fn_ktxFileStream_read,
                        skip_fn := fn_ktxFileStream_skip,
                        write_fn := fn_ktxFileStream_write,
                        getpos_fn := fn_ktxFileStream_getpos,
                        setpos_fn := fn_ktxFileStream_setpos,
                        getsize_fn := fn_ktxFileStream_getsize\<rparr>))))"

subsection \<open>Concrete streams and files\<close>

text \<open>
  A stream slot before construction, the stream that \<open>ktxFileStream_construct\<close> makes of
  it for the stdio stream at address 3, and worlds in which that address is the only open
  stream: a file with the given bytes and position, nothing buffered, a buffer of 4096
  bytes, room for 4096 bytes in the file, the largest offset of an ext4 file system and a
  working \<^verbatim>\<open>fstat\<close>. \<open>bytes100\<close> is a file content of 100 bytes.
\<close>

definition blank_stream :: ktxStream where
  "blank_stream =
     \<lparr>stream_type = eStreamTypeMemory, data_file = 0,
      read_fn = fn_other, skip_fn = fn_other, write_fn = fn_other,
      getpos_fn = fn_other, setpos_fn = fn_other, getsize_fn = fn_other\<rparr>"

definition example_stream :: ktxStream where
  "example_stream = the (snd (ktxFileStream_construct (Some blank_stream) (Some 3)))"

definition example_file :: "byte list \<Rightarrow> nat \<Rightarrow> FILE" where
  "example_file bs p =
     \<lparr>contents = bs, fd_offset = p, wbuf = [], bufsiz = 4096, fsize_limit = 4096,
      seek_limit = 17592186040320, fstat_err = False\<rparr>"

definition world_of :: "FILE \<Rightarrow> world" where
  "world_of f = \<lparr>files = Map.empty(3 \<mapsto> f), io_log = []\<rparr>"

definition bytes100 :: "byte list" where
  "bytes100 = replicate 100 7"

section \<open>Properties\<close>

subsection \<open>Conversions between the machine types\<close>


lemma size_t_of_GLsizei_zero: "size_t_of_GLsizei 0 = 0"
  by (simp add: size_t_of_GLsizei_def)

lemma uint_off_t_nonneg:
  fixes pos :: "64 word"
  assumes "0 \<le> sint pos"
  shows "uint pos = sint pos"
proof -
  have "sint pos < 2 ^ (LENGTH(64) - 1)" by (rule sint_lt)
  then have "sint pos < 2 ^ 64" by simp
  with assms have "sint pos mod 2 ^ 64 = sint pos" by simp
  then show ?thesis by (simp add: uint_sint take_bit_eq_mod)
qed

text \<open>A negative \<^verbatim>\<open>off_t\<close>, converted to \<^verbatim>\<open>size_t\<close>, is at least \<open>2 ^ 63\<close>.\<close>

lemma uint_off_t_neg:
  fixes pos :: "64 word"
  assumes "sint pos < 0"
  shows "2 ^ 63 \<le> uint pos"
proof -
  have "- (2 ^ (LENGTH(64) - 1)) \<le> sint pos" by (rule sint_ge)
  then have lo: "- (2 ^ 63) \<le> sint pos" by simp
  have "uint pos = sint pos mod 2 ^ 64" by (simp add: uint_sint take_bit_eq_mod)
  also have "\<dots> = (sint pos + 2 ^ 64) mod 2 ^ 64" by simp
  also have "\<dots> = sint pos + 2 ^ 64" using lo assms by (intro mod_pos_pos_trivial) auto
  finally show ?thesis using lo by simp
qed

lemma word_less_of_uint_sint:
  fixes n pos :: "64 word"
  assumes "uint n < sint pos"
  shows "n < pos"
proof -
  have "0 \<le> uint n" by simp
  with assms have "0 \<le> sint pos" by linarith
  then have "uint pos = sint pos" by (rule uint_off_t_nonneg)
  with assms show ?thesis by (simp add: word_less_def)
qed

lemma uint_size_word:
  assumes "k < 2 ^ 63"
  shows "uint (word_of_nat k :: 64 word) = int k"
proof -
  from assms have "k < 2 ^ 64" by simp
  then have "unat (word_of_nat k :: 64 word) = k" by (simp add: unat_of_nat)
  then show ?thesis by (simp add: uint_nat)
qed

lemma word_less_of_neg:
  fixes pos :: "64 word"
  assumes "sint pos < 0" and "k < 2 ^ 63"
  shows "(word_of_nat k :: 64 word) < pos"
proof -
  have "uint (word_of_nat k :: 64 word) = int k" using assms(2) by (rule uint_size_word)
  moreover have "int k < 2 ^ 63" using assms(2) by (simp flip: of_nat_less_iff)
  moreover have "2 ^ 63 \<le> uint pos" using assms(1) by (rule uint_off_t_neg)
  ultimately show ?thesis by (simp add: word_less_def)
qed

subsection \<open>The world and the bytes of a file\<close>

lemma files_logged: "files (logged c w) = files w"
  by (simp add: logged_def)

lemma io_log_logged: "io_log (logged c w) = io_log w @ [c]"
  by (simp add: logged_def)

lemma files_store: "files (store p f w) p = Some f"
  by (simp add: store_def)

lemma store_same: "files w p = Some f \<Longrightarrow> store p f w = w"
  by (simp add: store_def fun_upd_idem)





subsection \<open>Buffered output\<close>

text \<open>
  Flushing moves bytes from the buffer to the file; it changes neither the position nor
  what the file holds once everything is written. An empty buffer afterwards means that
  the file holds all of it.
\<close>

lemma fpos_flush: "fpos (flush f) = fpos f"
  by (simp add: fpos_def flush_def Let_def)


lemma flush_idle: "wbuf f = [] \<Longrightarrow> flush f = f"
  by (simp add: flush_def put_bytes_def)



lemma other_fields_flush:
  "bufsiz (flush f) = bufsiz f" "fsize_limit (flush f) = fsize_limit f"
  "seek_limit (flush f) = seek_limit f" "fstat_err (flush f) = fstat_err f"
  by (simp_all add: flush_def Let_def)





subsection \<open>What construction establishes\<close>

lemma ktxFileStream_construct_file:
  "ktxFileStream_construct (Some s0) (Some fp) = (KTX_SUCCESS, Some s) \<Longrightarrow>
   stream_type s = eStreamTypeFile \<and> data_file s = fp \<and>
   getsize_fn s = fn_ktxFileStream_getsize"
  by (auto simp: ktxFileStream_construct_def)

lemma example_stream_simps:
  "stream_type example_stream = eStreamTypeFile"
  "data_file example_stream = 3"
  "getsize_fn example_stream = fn_ktxFileStream_getsize"
  by (simp_all add: example_stream_def ktxFileStream_construct_def blank_stream_def)

lemma files_world_of: "files (world_of f) 3 = Some f"
  by (simp add: world_of_def)

subsection \<open>Each operation on a constructed stream, case by case\<close>

lemma ktxFileStream_getsize_cases:
  assumes "stream_type s = eStreamTypeFile" and "files w (data_file s) = Some f"
  shows "ktxFileStream_getsize w (Some s) (Some old) =
           (if fstat_err f then Some (KTX_FILE_WRITE_ERROR, logged Call_fstat w, Some old)
            else Some (KTX_SUCCESS, logged Call_fstat w,
                       Some (word_of_nat (length (contents f)))))"
  using assms by (simp add: ktxFileStream_getsize_def fstat_def)

lemma ktxFileStream_getsize_SUCCESS_D:
  assumes "ktxFileStream_getsize w (Some s) (Some x) = Some (KTX_SUCCESS, w', Some n)"
  shows "stream_type s = eStreamTypeFile \<and>
         (\<exists>f. files w (data_file s) = Some f \<and> \<not> fstat_err f \<and>
              n = word_of_nat (length (contents f))) \<and> w' = logged Call_fstat w"
  using assms
  by (auto simp: ktxFileStream_getsize_def fstat_def split: option.splits if_splits)

lemma ktxFileStream_getpos_cases:
  assumes "stream_type s = eStreamTypeFile" and "files w (data_file s) = Some f"
  shows "ktxFileStream_getpos w (Some s) (Some old) =
           Some (KTX_SUCCESS, logged Call_ftello w,
                 Some (if fpos f < 2 ^ 63 then word_of_nat (fpos f) else - 1))"
  using assms by (simp add: ktxFileStream_getpos_def ftello_def)


lemma ktxFileStream_skip_cases:
  assumes ty: "stream_type s = eStreamTypeFile"
    and f: "files w (data_file s) = Some f"
    and cnt: "0 \<le> sint count"
  shows "ktxFileStream_skip w (Some s) count =
           (if wbuf (flush f) = [] \<and> int (fpos f) + sint count < 2 ^ 63 \<and>
               int (fpos f) + sint count \<le> int (seek_limit f)
            then Some (KTX_SUCCESS,
                   logged Call_fseek
                     (store (data_file s)
                        ((flush f)\<lparr>fd_offset := fpos f + nat (sint count)\<rparr>) w))
            else Some (KTX_UNEXPECTED_END_OF_FILE,
                   logged Call_fseek (store (data_file s) (flush f) w)))"
proof -
  have "nat (int (fpos f) + sint count) = fpos f + nat (sint count)"
    using cnt by (simp add: nat_add_distrib)
  then show ?thesis
    using assms
    by (auto simp: ktxFileStream_skip_def fseek_def seek_stream_def seek_target_def Let_def
        fpos_flush other_fields_flush)
qed


lemma ktxFileStream_setpos_negative:
  assumes ty: "stream_type s = eStreamTypeFile"
    and slot: "getsize_fn s = fn_ktxFileStream_getsize"
    and f: "files w (data_file s) = Some f"
    and neg: "sint pos < 0"
  shows "ktxFileStream_setpos w (Some s) pos fileSize_init =
           Some (KTX_INVALID_OPERATION,
                 if (if fstat_err f then fileSize_init else word_of_nat (length (contents f))) < pos
                 then logged Call_fstat w
                 else logged Call_fseeko (store (data_file s) (flush f) (logged Call_fstat w)))"
  using assms
  by (simp add: ktxFileStream_setpos_def call_getsize_def ktxFileStream_getsize_def fstat_def
      fseeko_def seek_stream_def seek_target_def files_logged Let_def)


subsection \<open>Unfolding everything on concrete inputs\<close>

lemmas eval_defs =
  ktxFileStream_read_def ktxFileStream_write_def ktxFileStream_skip_def
  ktxFileStream_getpos_def ktxFileStream_setpos_def ktxFileStream_getsize_def
  call_getsize_def fread_def fwrite_def fseek_def fseeko_def seek_stream_def seek_target_def
  ftello_def fstat_def flush_def fpos_def view_def size_t_of_GLsizei_def logged_def store_def
  put_bytes_def example_stream_simps example_file_def world_of_def bytes100_def Let_def

section \<open>The claims\<close>

text \<open>
  C1. The claim is that after every successful operation the position reported by getpos
  lies between 0 and the size reported by getsize. For skip the code does not keep it: on
  a file of 100 bytes with the position at 50, skip of 60 bytes returns
  \<^verbatim>\<open>KTX_SUCCESS\<close>, after which getpos reports 110 and getsize reports 100.
\<close>

theorem position_beyond_size_after_skip:
  "ktxFileStream_skip (world_of (example_file bytes100 50)) (Some example_stream) 60 =
     Some (KTX_SUCCESS, logged Call_fseek (world_of (example_file bytes100 110))) \<and>
   ktxFileStream_getpos (logged Call_fseek (world_of (example_file bytes100 110)))
       (Some example_stream) (Some 0) =
     Some (KTX_SUCCESS,
           logged Call_ftello (logged Call_fseek (world_of (example_file bytes100 110))),
           Some 110) \<and>
   ktxFileStream_getsize (logged Call_fseek (world_of (example_file bytes100 110)))
       (Some example_stream) (Some 0) =
     Some (KTX_SUCCESS,
           logged Call_fstat (logged Call_fseek (world_of (example_file bytes100 110))),
           Some 100) \<and>
   uint (100 :: size_t) < sint (110 :: off_t)"
  by (simp add: eval_defs)




text \<open>
  C3. On a constructed file stream whose size query reports \<open>n\<close>, setpos with an offset
  strictly greater than \<open>n\<close> returns \<^verbatim>\<open>KTX_INVALID_OPERATION\<close>. The request is
  turned down after the size query and before any seek: the world returned differs from
  the one given only by the \<^verbatim>\<open>fstat\<close> entry in the log, so the table of streams and
  the position of every stream are unchanged.
\<close>

theorem setpos_beyond_size_rejected:
  assumes slot: "getsize_fn s = fn_ktxFileStream_getsize"
    and size: "ktxFileStream_getsize w (Some s) (Some x) = Some (KTX_SUCCESS, w', Some n)"
    and beyond: "uint n < sint pos"
  shows "ktxFileStream_setpos w (Some s) pos fileSize_init =
           Some (KTX_INVALID_OPERATION, logged Call_fstat w) \<and>
         files (logged Call_fstat w) = files w \<and>
         io_log (logged Call_fstat w) = io_log w @ [Call_fstat]"
proof -
  from ktxFileStream_getsize_SUCCESS_D [OF size] obtain f where
    ty: "stream_type s = eStreamTypeFile" and f: "files w (data_file s) = Some f"
    and ok: "\<not> fstat_err f" and n: "n = word_of_nat (length (contents f))"
    by blast
  have q: "ktxFileStream_getsize w (Some s) (Some fileSize_init) =
             Some (KTX_SUCCESS, logged Call_fstat w, Some n)"
    using ty f ok n by (simp add: ktxFileStream_getsize_cases)
  have "n < pos" using beyond by (rule word_less_of_uint_sint)
  then have "ktxFileStream_setpos w (Some s) pos fileSize_init =
               Some (KTX_INVALID_OPERATION, logged Call_fstat w)"
    using ty slot q by (simp add: ktxFileStream_setpos_def call_getsize_def)
  then show ?thesis by (simp add: files_logged io_log_logged)
qed

theorem setpos_beyond_size_rejected_witness:
  "getsize_fn example_stream = fn_ktxFileStream_getsize \<and>
   ktxFileStream_getsize (world_of (example_file bytes100 50)) (Some example_stream) (Some 0) =
     Some (KTX_SUCCESS, logged Call_fstat (world_of (example_file bytes100 50)), Some 100) \<and>
   uint (100 :: size_t) < sint (101 :: off_t) \<and>
   ktxFileStream_setpos (world_of (example_file bytes100 50)) (Some example_stream) 101 0 =
     Some (KTX_INVALID_OPERATION, logged Call_fstat (world_of (example_file bytes100 50)))"
proof -
  have slot: "getsize_fn example_stream = fn_ktxFileStream_getsize"
    by (simp add: example_stream_simps)
  have size: "ktxFileStream_getsize (world_of (example_file bytes100 50)) (Some example_stream)
                (Some 0) =
              Some (KTX_SUCCESS, logged Call_fstat (world_of (example_file bytes100 50)),
                    Some 100)"
    by (simp add: ktxFileStream_getsize_def fstat_def example_stream_simps files_world_of
        example_file_def bytes100_def)
  have beyond: "uint (100 :: size_t) < sint (101 :: off_t)" by simp
  from setpos_beyond_size_rejected [OF slot size beyond, of 0] slot size beyond
  show ?thesis by simp
qed

text \<open>
  C4. The claim is that skip fails with \<^verbatim>\<open>KTX_UNEXPECTED_END_OF_FILE\<close> when it would
  move past the end of the file. The code leaves the decision to \<^verbatim>\<open>fseek\<close>, which
  accepts a target beyond the end: on a file of 100 bytes, after setpos to 50, skip of 60
  bytes returns \<^verbatim>\<open>KTX_SUCCESS\<close> and leaves the position at 110.
\<close>

theorem skip_past_end_of_file_succeeds:
  "ktxFileStream_setpos (world_of (example_file bytes100 0)) (Some example_stream) 50 0 =
     Some (KTX_SUCCESS,
           logged Call_fseeko
             (store 3 (example_file bytes100 50)
                (logged Call_fstat (world_of (example_file bytes100 0))))) \<and>
   ktxFileStream_skip
       (logged Call_fseeko
          (store 3 (example_file bytes100 50)
             (logged Call_fstat (world_of (example_file bytes100 0)))))
       (Some example_stream) 60 =
     Some (KTX_SUCCESS,
           logged Call_fseek
             (store 3 (example_file bytes100 110)
                (logged Call_fseeko
                   (store 3 (example_file bytes100 50)
                      (logged Call_fstat (world_of (example_file bytes100 0)))))))"
  by (simp add: eval_defs)

text \<open>
  C5. Every operation called with an absent stream handle, with an absent buffer or output
  location where one is required (the destination of read, the source of write, the
  outputs of getpos and getsize), or skip called with a negative count, returns
  \<^verbatim>\<open>KTX_INVALID_VALUE\<close>, and it does so before any call to the platform is made: the
  world, with its log of stdio calls, is returned as it was.
\<close>

theorem absent_arguments_rejected_before_io:
  "ktxFileStream_read w None dst sz = Some (KTX_INVALID_VALUE, w, dst) \<and>
   ktxFileStream_read w str None sz = Some (KTX_INVALID_VALUE, w, None) \<and>
   ktxFileStream_write w None src sz count = Some (KTX_INVALID_VALUE, w) \<and>
   ktxFileStream_write w str None sz count = Some (KTX_INVALID_VALUE, w) \<and>
   ktxFileStream_skip w None count = Some (KTX_INVALID_VALUE, w) \<and>
   (sint count < 0 \<longrightarrow> ktxFileStream_skip w str count = Some (KTX_INVALID_VALUE, w)) \<and>
   ktxFileStream_getpos w None p = Some (KTX_INVALID_VALUE, w, p) \<and>
   ktxFileStream_getpos w str None = Some (KTX_INVALID_VALUE, w, None) \<and>
   ktxFileStream_setpos w None pos fileSize_init = Some (KTX_INVALID_VALUE, w) \<and>
   ktxFileStream_getsize w None q = Some (KTX_INVALID_VALUE, w, q) \<and>
   ktxFileStream_getsize w str None = Some (KTX_INVALID_VALUE, w, None)"
  by (simp add: ktxFileStream_read_def ktxFileStream_write_def ktxFileStream_skip_def
      ktxFileStream_getpos_def ktxFileStream_setpos_def ktxFileStream_getsize_def
      split: option.split)

theorem absent_arguments_rejected_before_io_witness:
  "sint (- 1 :: GLsizei) < 0 \<and>
   ktxFileStream_skip (world_of (example_file bytes100 50)) (Some example_stream) (- 1) =
     Some (KTX_INVALID_VALUE, world_of (example_file bytes100 50)) \<and>
   ktxFileStream_read (world_of (example_file bytes100 50)) (Some example_stream) None 4 =
     Some (KTX_INVALID_VALUE, world_of (example_file bytes100 50), None) \<and>
   ktxFileStream_setpos (world_of (example_file bytes100 50)) None 10 0 =
     Some (KTX_INVALID_VALUE, world_of (example_file bytes100 50))"
  using absent_arguments_rejected_before_io
    [where w = "world_of (example_file bytes100 50)" and str = "Some example_stream"
       and count = "- 1" and sz = 4 and pos = 10 and fileSize_init = 0]
  by simp






text \<open>
  C8. On a constructed file stream with an output location, getsize asks \<^verbatim>\<open>fstat\<close>
  and nothing else: the only call logged is \<^verbatim>\<open>fstat\<close> and the table of streams, with
  every position, is as before. When the query works, the result is
  \<^verbatim>\<open>KTX_SUCCESS\<close> and the output holds the number of bytes of the file; when it
  fails, the result is \<^verbatim>\<open>KTX_FILE_WRITE_ERROR\<close> and the output is left alone.
\<close>

theorem getsize_by_metadata_query:
  assumes "stream_type s = eStreamTypeFile" and "files w (data_file s) = Some f"
    and "length (contents f) < 2 ^ 63"
  shows "\<exists>n w'. ktxFileStream_getsize w (Some s) (Some old) =
            (if fstat_err f then Some (KTX_FILE_WRITE_ERROR, w', Some old)
             else Some (KTX_SUCCESS, w', Some n)) \<and>
          unat n = length (contents f) \<and>
          files w' = files w \<and> io_log w' = io_log w @ [Call_fstat]"
proof -
  let ?n = "word_of_nat (length (contents f)) :: size_t"
  from assms(3) have "length (contents f) < 2 ^ 64" by simp
  then have "unat ?n = length (contents f)" by (simp add: unat_of_nat)
  moreover have "ktxFileStream_getsize w (Some s) (Some old) =
            (if fstat_err f then Some (KTX_FILE_WRITE_ERROR, logged Call_fstat w, Some old)
             else Some (KTX_SUCCESS, logged Call_fstat w, Some ?n))"
    using assms(1,2) by (rule ktxFileStream_getsize_cases)
  ultimately show ?thesis
    using files_logged [of Call_fstat w] io_log_logged [of Call_fstat w] by blast
qed

theorem getsize_by_metadata_query_witness:
  "ktxFileStream_getsize (world_of (example_file bytes100 50)) (Some example_stream) (Some 0) =
     Some (KTX_SUCCESS, logged Call_fstat (world_of (example_file bytes100 50)), Some 100) \<and>
   ktxFileStream_getsize (world_of (example_file bytes100 50\<lparr>fstat_err := True\<rparr>))
       (Some example_stream) (Some 0) =
     Some (KTX_FILE_WRITE_ERROR,
           logged Call_fstat (world_of (example_file bytes100 50\<lparr>fstat_err := True\<rparr>)),
           Some 0)"
proof -
  let ?f = "example_file bytes100 50" and ?g = "example_file bytes100 50\<lparr>fstat_err := True\<rparr>"
  have len: "length (contents ?f) < 2 ^ 63" "length (contents ?g) < 2 ^ 63"
    by (simp_all add: example_file_def bytes100_def)
  have ty: "stream_type example_stream = eStreamTypeFile"
    and open_f: "files (world_of ?f) (data_file example_stream) = Some ?f"
    and open_g: "files (world_of ?g) (data_file example_stream) = Some ?g"
    by (simp_all add: example_stream_simps files_world_of)
  from getsize_by_metadata_query [OF ty open_f len(1), of 0]
  obtain n w' where
    "ktxFileStream_getsize (world_of ?f) (Some example_stream) (Some 0) =
       Some (KTX_SUCCESS, w', Some n)"
    by (auto simp: example_file_def)
  moreover from getsize_by_metadata_query [OF ty open_g len(2), of 0]
  obtain m w'' where
    "ktxFileStream_getsize (world_of ?g) (Some example_stream) (Some 0) =
       Some (KTX_FILE_WRITE_ERROR, w'', Some 0)"
    by (auto simp: example_file_def)
  ultimately show ?thesis
    by (simp add: ktxFileStream_getsize_def fstat_def example_stream_simps files_world_of
        example_file_def bytes100_def split: option.splits)
qed

text \<open>
  C9. On a constructed file stream with a destination buffer, a read of zero bytes does
  not succeed: \<^verbatim>\<open>fread\<close> of a zero size reports zero items, the operation compares
  that with one and returns \<^verbatim>\<open>KTX_UNEXPECTED_END_OF_FILE\<close>. Neither the file nor the
  buffer changes.
\<close>

theorem read_of_zero_bytes_fails:
  assumes "stream_type s = eStreamTypeFile" and "files w (data_file s) = Some f"
  shows "ktxFileStream_read w (Some s) (Some d) 0 =
           Some (KTX_UNEXPECTED_END_OF_FILE, logged Call_fread w, Some d)"
  using assms by (simp add: ktxFileStream_read_def fread_def size_t_of_GLsizei_zero)

theorem read_of_zero_bytes_fails_witness:
  "stream_type example_stream = eStreamTypeFile \<and>
   files (world_of (example_file bytes100 0)) (data_file example_stream) =
     Some (example_file bytes100 0) \<and>
   ktxFileStream_read (world_of (example_file bytes100 0)) (Some example_stream)
       (Some [1, 2]) 0 =
     Some (KTX_UNEXPECTED_END_OF_FILE, logged Call_fread (world_of (example_file bytes100 0)),
           Some [1, 2])"
  using read_of_zero_bytes_fails
    [of example_stream "world_of (example_file bytes100 0)" "example_file bytes100 0" "[1, 2]"]
  by (simp add: example_stream_simps files_world_of)

text \<open>
  C10. On a constructed file stream, setpos with a negative offset returns
  \<^verbatim>\<open>KTX_INVALID_OPERATION\<close>, not \<^verbatim>\<open>KTX_INVALID_VALUE\<close>, and moves no position; on a
  stream without buffered output nothing changes at all. When the size query works, the
  offset, compared with the unsigned file size, is at least \<open>2 ^ 63\<close> and therefore
  greater than any size a file can have, so the request is turned down before a seek is
  issued: the log gains the \<^verbatim>\<open>fstat\<close> entry only.
\<close>

theorem setpos_negative_offset_rejected:
  assumes ty: "stream_type s = eStreamTypeFile"
    and slot: "getsize_fn s = fn_ktxFileStream_getsize"
    and f: "files w (data_file s) = Some f"
    and neg: "sint pos < 0"
  shows "(\<exists>w' f'. ktxFileStream_setpos w (Some s) pos fileSize_init =
                   Some (KTX_INVALID_OPERATION, w') \<and>
                 files w' (data_file s) = Some f' \<and> fpos f' = fpos f \<and>
                 (wbuf f = [] \<longrightarrow> files w' = files w)) \<and>
         (\<not> fstat_err f \<and> length (contents f) < 2 ^ 63 \<longrightarrow>
            (word_of_nat (length (contents f)) :: size_t) < pos \<and>
            ktxFileStream_setpos w (Some s) pos fileSize_init =
              Some (KTX_INVALID_OPERATION, logged Call_fstat w) \<and>
            io_log (logged Call_fstat w) = io_log w @ [Call_fstat])"
proof -
  note eq = ktxFileStream_setpos_negative [OF ty slot f neg, of fileSize_init]
  have same: "wbuf f = [] \<Longrightarrow> store (data_file s) (flush f) (logged Call_fstat w) =
                logged Call_fstat w"
    using f by (simp add: flush_idle store_same files_logged)
  have first: "\<exists>w' f'. ktxFileStream_setpos w (Some s) pos fileSize_init =
                   Some (KTX_INVALID_OPERATION, w') \<and>
                 files w' (data_file s) = Some f' \<and> fpos f' = fpos f \<and>
                 (wbuf f = [] \<longrightarrow> files w' = files w)"
    using f same by (auto simp: eq files_logged files_store fpos_flush)
  have second: "\<not> fstat_err f \<Longrightarrow> length (contents f) < 2 ^ 63 \<Longrightarrow>
            (word_of_nat (length (contents f)) :: size_t) < pos \<and>
            ktxFileStream_setpos w (Some s) pos fileSize_init =
              Some (KTX_INVALID_OPERATION, logged Call_fstat w) \<and>
            io_log (logged Call_fstat w) = io_log w @ [Call_fstat]"
  proof -
    assume ok: "\<not> fstat_err f" and small: "length (contents f) < 2 ^ 63"
    have "(word_of_nat (length (contents f)) :: 64 word) < pos"
      using neg small by (rule word_less_of_neg)
    then show ?thesis using ok by (simp add: eq io_log_logged)
  qed
  from first second show ?thesis by blast
qed

theorem setpos_negative_offset_rejected_witness:
  "sint (- 1 :: off_t) < 0 \<and>
   ktxFileStream_setpos (world_of (example_file bytes100 50)) (Some example_stream) (- 1) 0 =
     Some (KTX_INVALID_OPERATION, logged Call_fstat (world_of (example_file bytes100 50)))"
proof -
  let ?f = "example_file bytes100 50"
  have ty: "stream_type example_stream = eStreamTypeFile"
    and slot: "getsize_fn example_stream = fn_ktxFileStream_getsize"
    and f: "files (world_of ?f) (data_file example_stream) = Some ?f"
    by (simp_all add: example_stream_simps files_world_of)
  have ok: "\<not> fstat_err ?f \<and> length (contents ?f) < 2 ^ 63"
    by (simp add: example_file_def bytes100_def)
  have neg: "sint (- 1 :: off_t) < 0" by simp
  from setpos_negative_offset_rejected [OF ty slot f neg, of 0] ok neg
  show ?thesis by blast
qed

end
